theory Spec2Isabelle
  imports Complex_Main "HOL-Library.Word"
begin

section \<open>The mock backend of the end-to-end tests (e2e/tauri-mock.ts)\<close>

text \<open>
  The page talks to its backend through \<^verbatim>\<open>invoke(cmd, args)\<close>. The repository's
  sources hold one implementation of that interface: the mock injected by
  \<^verbatim>\<open>injectTauriMock\<close>. Its state is the interface \<^verbatim>\<open>MockState\<close>; every command
  is a case of one \<^verbatim>\<open>switch\<close>, modelled here as a function from the state to the
  reply and the updated state.

  JavaScript strings are modelled as \<^typ>\<open>string\<close>, \<^verbatim>\<open>string | null\<close> as
  \<^typ>\<open>string option\<close>, the \<^verbatim>\<open>Record<string, ...>\<close> of slot tables as a map of the
  tables stored in the object, and the numeric volume as a real number. A command that
  throws is modelled by its error as a value.
\<close>

record pack_info =
  pack_id :: string
  pack_name :: string
  author :: string
  description :: string
  source :: "string option"

record slot_info =
  slot :: string
  label :: string
  file_name :: "string option"

record MockState =
  enabled :: bool
  volume :: real
  activePackId :: string
  packs :: "pack_info list"
  customSlots :: "string \<rightharpoonup> slot_info list"
  nextCustomId :: string

definition DEFAULT_PACKS :: "pack_info list" where
  "DEFAULT_PACKS =
    [\<lparr>pack_id = ''default'', pack_name = ''HHKB'', author = ''KeySound'',
       description = ''Default'', source = None\<rparr>,
     \<lparr>pack_id = ''my-custom'', pack_name = ''My Custom'', author = ''You'',
       description = '''', source = Some ''user''\<rparr>,
     \<lparr>pack_id = ''cherry-mx'', pack_name = ''Cherry MX Blue'', author = ''KeySound'',
       description = ''Clicky'', source = None\<rparr>]"

definition ALL_SLOTS :: "(string \<times> string) list" where
  "ALL_SLOTS =
    [(''default'', ''Default Key''), (''space'', ''Space''), (''enter'', ''Enter''),
     (''modifier'', ''Modifiers''), (''backspace'', ''Backspace / Delete'')]"

definition defaultState :: MockState where
  "defaultState =
    \<lparr>enabled = True, volume = 8 / 10, activePackId = ''default'', packs = DEFAULT_PACKS,
     customSlots = [''my-custom'' \<mapsto>
       map (\<lambda>(s, l). \<lparr>slot = s, label = l,
              file_name = (if s = ''default'' then Some ''click.wav'' else None)\<rparr>) ALL_SLOTS],
     nextCustomId = ''new-pack-1''\<rparr>"

datatype js_throw = TypeError

datatype reply =
  RBool bool | RNum real | RStr string | RNull
  | RPack pack_info | RPacks "pack_info list" | RSlots "slot_info list"
  | Rejected js_throw

subsection \<open>Helpers for the array and string methods the mock calls\<close>

text \<open>
  \<^verbatim>\<open>Array.prototype.findIndex\<close> with a callback of the element and its index; JavaScript's
  \<^verbatim>\<open>-1\<close> is \<^term>\<open>None\<close>.
\<close>

fun findIndex :: "('a \<Rightarrow> nat \<Rightarrow> bool) \<Rightarrow> 'a list \<Rightarrow> nat \<Rightarrow> nat option" where
  "findIndex P [] i = None"
| "findIndex P (x # xs) i = (if P x i then Some i else findIndex P xs (Suc i))"

text \<open>\<^verbatim>\<open>xs.splice(k, 0, x)\<close>: insert before index \<open>k\<close>.\<close>

definition splice_in :: "nat \<Rightarrow> 'a \<Rightarrow> 'a list \<Rightarrow> 'a list" where
  "splice_in k x xs = take k xs @ [x] @ drop k xs"

text \<open>
  \<^verbatim>\<open>const s = slots.find((x) => x.slot === slot); if (s) s.file_name = v;\<close>
  The first entry with that slot key is updated in place; nothing happens when there is
  none.
\<close>

fun assign_file_name :: "string \<Rightarrow> string option \<Rightarrow> slot_info list \<Rightarrow> slot_info list" where
  "assign_file_name k v [] = []"
| "assign_file_name k v (x # xs) =
    (if slot x = k then x\<lparr>file_name := v\<rparr> # xs else x # assign_file_name k v xs)"

text \<open>\<^verbatim>\<open>str.split(sep)\<close> for a one-character separator: never an empty array.\<close>

fun split_on :: "char \<Rightarrow> string \<Rightarrow> string list" where
  "split_on d [] = [[]]"
| "split_on d (c # cs) =
    (if c = d then [] # split_on d cs
     else (case split_on d cs of [] \<Rightarrow> [[c]] | w # ws \<Rightarrow> (c # w) # ws))"

text \<open>
  \<^verbatim>\<open>filePath.replace(/\\/g, "/").split("/").pop()!\<close>: the text after the last slash or
  backslash.
\<close>

definition path_file_name :: "string \<Rightarrow> string" where
  "path_file_name filePath =
    last (split_on (CHR ''/'') (map (\<lambda>c. if c = CHR 0x5C then CHR ''/'' else c) filePath))"

subsection \<open>The commands\<close>

text \<open>\<^verbatim>\<open>toggle_sound\<close>: \<^verbatim>\<open>state.enabled = !state.enabled; return state.enabled;\<close>\<close>

definition toggle_sound :: "MockState \<Rightarrow> bool \<times> MockState" where
  "toggle_sound st = (let st' = st\<lparr>enabled := \<not> enabled st\<rparr> in (enabled st', st'))"

text \<open>\<^verbatim>\<open>set_volume\<close>: \<^verbatim>\<open>state.volume = (args?.volume as number) ?? state.volume;\<close>\<close>

definition set_volume :: "real option \<Rightarrow> MockState \<Rightarrow> MockState" where
  "set_volume arg st = st\<lparr>volume := (case arg of Some v \<Rightarrow> v | None \<Rightarrow> volume st)\<rparr>"

text \<open>\<^verbatim>\<open>set_active_pack\<close>: \<^verbatim>\<open>state.activePackId = (args?.packId as string) ?? state.activePackId;\<close>\<close>

definition set_active_pack :: "string option \<Rightarrow> MockState \<Rightarrow> MockState" where
  "set_active_pack arg st =
    st\<lparr>activePackId := (case arg of Some p \<Rightarrow> p | None \<Rightarrow> activePackId st)\<rparr>"

definition get_sound_packs :: "MockState \<Rightarrow> pack_info list" where
  "get_sound_packs st = packs st"

definition get_active_pack_id :: "MockState \<Rightarrow> string" where
  "get_active_pack_id st = activePackId st"

text \<open>
  \<^verbatim>\<open>create_custom_pack\<close>: the name defaults to \<^verbatim>\<open>"Untitled"\<close>, the id is the state's
  \<^verbatim>\<open>nextCustomId\<close>; the pack is inserted before the first pack past index 0 whose source
  is not \<^verbatim>\<open>"user"\<close> (appended when there is none), and gets a table of five empty slots.
\<close>

definition new_pack_slots :: "slot_info list" where
  "new_pack_slots =
    [\<lparr>slot = ''default'', label = ''Default Key'', file_name = None\<rparr>,
     \<lparr>slot = ''space'', label = ''Space'', file_name = None\<rparr>,
     \<lparr>slot = ''enter'', label = ''Enter'', file_name = None\<rparr>,
     \<lparr>slot = ''modifier'', label = ''Modifiers'', file_name = None\<rparr>,
     \<lparr>slot = ''backspace'', label = ''Backspace / Delete'', file_name = None\<rparr>]"

definition create_custom_pack :: "string option \<Rightarrow> MockState \<Rightarrow> pack_info \<times> MockState" where
  "create_custom_pack arg st =
    (let name = (case arg of Some n \<Rightarrow> n | None \<Rightarrow> ''Untitled'');
         ident = nextCustomId st;
         pack = \<lparr>pack_id = ident, pack_name = name, author = ''You'', description = [],
                 source = Some ''user''\<rparr>;
         firstBundledIdx = findIndex (\<lambda>p i. i > 0 \<and> source p \<noteq> Some ''user'') (packs st) 0;
         packs' = (case firstBundledIdx of
                     None \<Rightarrow> packs st @ [pack]
                   | Some k \<Rightarrow> splice_in k pack (packs st))
     in (pack, st\<lparr>packs := packs', customSlots := (customSlots st)(ident \<mapsto> new_pack_slots)\<rparr>))"

text \<open>
  \<^verbatim>\<open>state.customSlots[packId]\<close>: the slot table stored under the id, or, when there is
  none, what the object inherits. A plain object inherits the members of
  \<^verbatim>\<open>Object.prototype\<close>, so for an id that is the name of one of them the lookup gives that
  member (a function, or the prototype itself for \<^verbatim>\<open>"__proto__"\<close>), which is truthy and
  is no array; for any other id it gives \<^verbatim>\<open>undefined\<close>.

  An assignment to the key \<^verbatim>\<open>"__proto__"\<close> stores no property: it makes the assigned
  array the prototype of the object, and the lookup of that key gives the array again. The
  map holds that array under the key \<^verbatim>\<open>"__proto__"\<close>; a state is taken to store no
  property of its own under that key. The members such an array lends to
  the object (its length, its indices, the array methods) are not modelled; the
  properties below that depend on them are stated for states without such an entry.
  Tables of different packs are different arrays, as they are in \<^verbatim>\<open>defaultState()\<close> and
  after every create.
\<close>

definition Object_prototype_names :: "string list" where
  "Object_prototype_names =
    [''constructor'', ''__defineGetter__'', ''__defineSetter__'', ''hasOwnProperty'',
     ''__lookupGetter__'', ''__lookupSetter__'', ''isPrototypeOf'', ''propertyIsEnumerable'',
     ''toString'', ''valueOf'', ''__proto__'', ''toLocaleString'']"

datatype slot_lookup = Table "slot_info list" | Inherited_member | Undefined

definition lookup_slots :: "MockState \<Rightarrow> string \<Rightarrow> slot_lookup" where
  "lookup_slots st packId =
    (case customSlots st packId of
       Some slots \<Rightarrow> Table slots
     | None \<Rightarrow> if packId \<in> set Object_prototype_names then Inherited_member else Undefined)"

text \<open>
  \<^verbatim>\<open>import_sound_file\<close>: no check of the path; the slot's file name becomes the last path
  segment when the pack has a slot table and the table has the slot. On an inherited
  member \<^verbatim>\<open>slots.find\<close> is not a function and the call throws before anything is changed.
\<close>

definition import_sound_file ::
  "string \<Rightarrow> string \<Rightarrow> string \<Rightarrow> MockState \<Rightarrow> js_throw + MockState" where
  "import_sound_file packId slotKey filePath st =
    (let fileName = path_file_name filePath in
     case lookup_slots st packId of
       Undefined \<Rightarrow> Inr st
     | Inherited_member \<Rightarrow> Inl TypeError
     | Table slots \<Rightarrow>
         Inr (st\<lparr>customSlots :=
               (customSlots st)(packId \<mapsto> assign_file_name slotKey (Some fileName) slots)\<rparr>))"

text \<open>
  \<^verbatim>\<open>get_custom_pack_slots\<close>: \<^verbatim>\<open>[...(state.customSlots[packId] ?? [])]\<close>; an inherited
  member is not iterable, so spreading it throws.
\<close>

definition get_custom_pack_slots :: "string \<Rightarrow> MockState \<Rightarrow> js_throw + slot_info list" where
  "get_custom_pack_slots packId st =
    (case lookup_slots st packId of
       Undefined \<Rightarrow> Inr []
     | Inherited_member \<Rightarrow> Inl TypeError
     | Table slots \<Rightarrow> Inr slots)"

text \<open>\<^verbatim>\<open>remove_sound_slot\<close>: the slot's file name becomes \<^verbatim>\<open>null\<close>, whichever slot it is.\<close>

definition remove_sound_slot :: "string \<Rightarrow> string \<Rightarrow> MockState \<Rightarrow> js_throw + MockState" where
  "remove_sound_slot packId slotKey st =
    (case lookup_slots st packId of
       Undefined \<Rightarrow> Inr st
     | Inherited_member \<Rightarrow> Inl TypeError
     | Table slots \<Rightarrow>
         Inr (st\<lparr>customSlots := (customSlots st)(packId \<mapsto> assign_file_name slotKey None slots)\<rparr>))"

text \<open>
  \<^verbatim>\<open>delete_custom_pack\<close>:
  \<^verbatim>\<open>state.packs = state.packs.filter((p) => p.id !== packId); delete state.customSlots[packId];\<close>
  The \<^verbatim>\<open>delete\<close> removes a stored property only: under \<^verbatim>\<open>"__proto__"\<close> there is none,
  and an installed prototype stays.
\<close>

definition delete_custom_pack :: "string \<Rightarrow> MockState \<Rightarrow> MockState" where
  "delete_custom_pack packId st =
    st\<lparr>packs := filter (\<lambda>p. pack_id p \<noteq> packId) (packs st),
       customSlots := (if packId = ''__proto__'' then customSlots st
                       else (customSlots st)(packId := None))\<rparr>"

subsection \<open>The dispatcher\<close>

text \<open>
  \<^verbatim>\<open>invoke\<close> is an \<^verbatim>\<open>async\<close> function: a command that throws rejects the promise, and
  the state stays as the command left it.
\<close>

datatype command =
  Get_enabled | Get_volume | Get_sound_packs | Get_active_pack_id | Toggle_sound
  | Set_volume "real option" | Set_active_pack "string option" | Play_sound
  | Create_custom_pack "string option" | Import_sound_file string string string
  | Get_custom_pack_slots string | Remove_sound_slot string string
  | Delete_custom_pack string | Unhandled string

fun invoke :: "command \<Rightarrow> MockState \<Rightarrow> reply \<times> MockState" where
  "invoke Get_enabled st = (RBool (enabled st), st)"
| "invoke Get_volume st = (RNum (volume st), st)"
| "invoke Get_sound_packs st = (RPacks (get_sound_packs st), st)"
| "invoke Get_active_pack_id st = (RStr (get_active_pack_id st), st)"
| "invoke Toggle_sound st = (case toggle_sound st of (b, st') \<Rightarrow> (RBool b, st'))"
| "invoke (Set_volume v) st = (RNull, set_volume v st)"
| "invoke (Set_active_pack p) st = (RNull, set_active_pack p st)"
| "invoke Play_sound st = (RNull, st)"
| "invoke (Create_custom_pack n) st = (case create_custom_pack n st of (p, st') \<Rightarrow> (RPack p, st'))"
| "invoke (Import_sound_file p s f) st =
    (case import_sound_file p s f st of Inl e \<Rightarrow> (Rejected e, st) | Inr st' \<Rightarrow> (RNull, st'))"
| "invoke (Get_custom_pack_slots p) st =
    (case get_custom_pack_slots p st of Inl e \<Rightarrow> (Rejected e, st) | Inr slots \<Rightarrow> (RSlots slots, st))"
| "invoke (Remove_sound_slot p s) st =
    (case remove_sound_slot p s st of Inl e \<Rightarrow> (Rejected e, st) | Inr st' \<Rightarrow> (RNull, st'))"
| "invoke (Delete_custom_pack p) st = (RNull, delete_custom_pack p st)"
| "invoke (Unhandled c) st = (RNull, st)"

section \<open>The page's handlers for creating and deleting a pack (+page.svelte)\<close>

text \<open>
  The page keeps its own copies of the pack list and of the active pack id, and calls the
  backend through \<^verbatim>\<open>invoke\<close>. A handler is a function on the pair of the page's state
  and the backend's state. The persisted \<^verbatim>\<open>packOrder\<close> entry of the settings store and the
  messages passed to \<^verbatim>\<open>alert\<close> are fields of the page state. The two form tables are
  association lists in insertion order, the order \<^verbatim>\<open>Object.entries\<close> walks them in.
\<close>

record PageState =
  page_enabled :: bool
  page_volume :: real
  loading :: bool
  page_packs :: "pack_info list"
  orderedPacks :: "pack_info list"
  page_activePackId :: "string option"
  newPackName :: string
  newPackSlots :: "(string \<times> string option) list"
  newPackKeySlots :: "(string \<times> string option) list"
  creating :: bool
  editingPack :: "pack_info option"
  editSlots :: "slot_info list"
  deletingPackId :: "string option"
  packOrder :: "string list option"
  alerts :: "string list"

text \<open>
  \<^verbatim>\<open>String.prototype.trim\<close> over code units below 256: tab, line feed, vertical tab, form
  feed, carriage return, space and no-break space are white space.
\<close>

definition js_space :: "char \<Rightarrow> bool" where
  "js_space c = (of_char c \<in> {9, 10, 11, 12, 13, 32, 160 :: nat})"

definition js_trim :: "string \<Rightarrow> string" where
  "js_trim s = rev (dropWhile js_space (rev (dropWhile js_space s)))"

text \<open>A form entry counts as chosen when it is neither missing, \<^verbatim>\<open>null\<close> nor empty.\<close>

definition chosen_file :: "(string \<times> string option) list \<Rightarrow> string \<Rightarrow> string option" where
  "chosen_file table k =
    (case map_of table k of
       Some (Some path) \<Rightarrow> (if path = [] then None else Some path)
     | _ \<Rightarrow> None)"

text \<open>
  \<^verbatim>\<open>applyPackOrder\<close>: the packs named by the saved order come first, in that order; the
  others follow. \<^verbatim>\<open>placed\<close> is a plain object used as a set of ids, so the test
  \<^verbatim>\<open>!placed[pack.id]\<close> also finds the members every object inherits: a pack whose id is
  the name of one is taken for placed.
\<close>

fun place_saved ::
  "string list \<Rightarrow> pack_info list \<Rightarrow> pack_info list \<times> string list \<Rightarrow> pack_info list \<times> string list" where
  "place_saved [] packList acc = acc"
| "place_saved (i # rest) packList (ordered, placed) =
    (case find (\<lambda>p. pack_id p = i) packList of
       None \<Rightarrow> place_saved rest packList (ordered, placed)
     | Some p \<Rightarrow> place_saved rest packList (ordered @ [p], placed @ [i]))"

definition applyPackOrder :: "string list option \<Rightarrow> pack_info list \<Rightarrow> pack_info list" where
  "applyPackOrder savedOrder packList =
    (case savedOrder of
       None \<Rightarrow> packList
     | Some order \<Rightarrow>
         if order = [] then packList
         else (case place_saved order packList ([], []) of
                 (ordered, placed) \<Rightarrow>
                   ordered @ filter (\<lambda>p. pack_id p \<notin> set placed
                                        \<and> pack_id p \<notin> set Object_prototype_names) packList))"

definition refreshPacks :: "PageState \<Rightarrow> MockState \<Rightarrow> PageState" where
  "refreshPacks ui st =
    ui\<lparr>page_packs := get_sound_packs st,
       orderedPacks := applyPackOrder (packOrder ui) (get_sound_packs st)\<rparr>"

definition handlePackSelect :: "string \<Rightarrow> PageState \<times> MockState \<Rightarrow> PageState \<times> MockState" where
  "handlePackSelect packId w =
    (case w of (ui, st) \<Rightarrow>
       (ui\<lparr>page_activePackId := Some packId\<rparr>, set_active_pack (Some packId) st))"

definition resetNewPackForm :: "PageState \<Rightarrow> PageState" where
  "resetNewPackForm ui =
    ui\<lparr>newPackName := [],
       newPackSlots := [(''default'', None), (''space'', None), (''enter'', None),
                        (''modifier'', None), (''backspace'', None)],
       newPackKeySlots := []\<rparr>"

text \<open>
  \<^verbatim>\<open>for (const [slot, filePath] of Object.entries(table)) if (filePath) await
  invoke("import_sound_file", { packId, slot, filePath });\<close>
  The loop ends at the first call that throws; the result is what was thrown, if
  anything, and the backend's state at that point.
\<close>

fun import_selected ::
  "string \<Rightarrow> (string \<times> string option) list \<Rightarrow> MockState \<Rightarrow> js_throw option \<times> MockState" where
  "import_selected packId [] st = (None, st)"
| "import_selected packId ((k, f) # rest) st =
    (case f of
       None \<Rightarrow> import_selected packId rest st
     | Some path \<Rightarrow>
         if path = [] then import_selected packId rest st
         else (case import_sound_file packId k path st of
                 Inl e \<Rightarrow> (Some e, st)
               | Inr st' \<Rightarrow> import_selected packId rest st'))"

text \<open>
  The \<^verbatim>\<open>catch\<close> block of \<^verbatim>\<open>handleCreatePack\<close> and the statement after it:
  \<^verbatim>\<open>alert(`Failed to create pack: ${e}`); ... creating = false;\<close>
  The text of the error is the engine's (here V8's).
\<close>

fun thrown_text :: "js_throw \<Rightarrow> string" where
  "thrown_text TypeError = ''TypeError: slots.find is not a function''"

definition create_failed :: "js_throw \<Rightarrow> PageState \<Rightarrow> PageState" where
  "create_failed e ui =
    ui\<lparr>alerts := alerts ui @ [''Failed to create pack: '' @ thrown_text e], creating := False\<rparr>"

text \<open>
  \<^verbatim>\<open>handleCreatePack\<close>: returns at once when the trimmed name is empty; alerts and returns
  when no default file is chosen; otherwise creates the pack under the trimmed name,
  imports the chosen files, reloads the list, selects the new pack and clears the form.
\<close>

definition handleCreatePack :: "PageState \<times> MockState \<Rightarrow> PageState \<times> MockState" where
  "handleCreatePack w =
    (case w of (ui, st) \<Rightarrow>
       if js_trim (newPackName ui) = [] then (ui, st)
       else if chosen_file (newPackSlots ui) ''default'' = None
         then (ui\<lparr>alerts := alerts ui @ [''Default Key sound is required.'']\<rparr>, st)
       else
         (case create_custom_pack (Some (js_trim (newPackName ui))) st of
            (pack, st1) \<Rightarrow>
              (case import_selected (pack_id pack) (newPackSlots ui) st1 of
                 (Some e, st2) \<Rightarrow> (create_failed e ui, st2)
               | (None, st2) \<Rightarrow>
                   (case import_selected (pack_id pack) (newPackKeySlots ui) st2 of
                      (Some e, st3) \<Rightarrow> (create_failed e ui, st3)
                    | (None, st3) \<Rightarrow>
                        let ui1 = refreshPacks (ui\<lparr>creating := True\<rparr>) st3
                        in (case handlePackSelect (pack_id pack) (ui1, st3) of
                              (ui2, st4) \<Rightarrow> ((resetNewPackForm ui2)\<lparr>creating := False\<rparr>, st4))))))"

text \<open>
  \<^verbatim>\<open>handleDeletePack\<close>: deletes in the backend, closes the confirmation and the editor of
  that pack, sets the page's own active id to \<^verbatim>\<open>"default"\<close> when it was the deleted pack,
  and reloads the list.
\<close>

definition handleDeletePack :: "string \<Rightarrow> PageState \<times> MockState \<Rightarrow> PageState \<times> MockState" where
  "handleDeletePack packId w =
    (case w of (ui, st) \<Rightarrow>
       let st1 = delete_custom_pack packId st;
           ui1 = ui\<lparr>deletingPackId := None\<rparr>;
           ui2 = (if map_option pack_id (editingPack ui1) = Some packId
                  then ui1\<lparr>editingPack := None, editSlots := []\<rparr> else ui1);
           ui3 = (if page_activePackId ui2 = Some packId
                  then ui2\<lparr>page_activePackId := Some ''default''\<rparr> else ui2)
       in (refreshPacks ui3 st1, st1))"

text \<open>
  \<^term>\<open>initialPage\<close> holds the initial values of the script's state variables, with
  nothing persisted in the settings store.
\<close>

definition initialPage :: PageState where
  "initialPage =
    \<lparr>page_enabled = True, page_volume = 8 / 10, loading = True,
     page_packs = [], orderedPacks = [], page_activePackId = None, newPackName = [],
     newPackSlots = [(''default'', None), (''space'', None), (''enter'', None),
                     (''modifier'', None), (''backspace'', None)],
     newPackKeySlots = [], creating = False, editingPack = None, editSlots = [],
     deletingPackId = None, packOrder = None, alerts = []\<rparr>"

section \<open>WAV encoding (scripts/generate-sounds.mjs)\<close>

text \<open>
  \<^verbatim>\<open>encodeWav\<close> writes a 44-byte RIFF header and one 16-bit sample per array element into
  a Node.js \<^verbatim>\<open>Buffer\<close>. A buffer is a list of bytes. The \<^verbatim>\<open>Buffer\<close> methods check
  their value and their offset and throw a \<^verbatim>\<open>RangeError\<close> (\<^verbatim>\<open>ERR_OUT_OF_RANGE\<close>), which
  the model returns as \<^term>\<open>Inl\<close>. Memory limits of \<^verbatim>\<open>Buffer.alloc\<close> are not modelled;
  they can only make a call fail earlier.

  A sample is a JavaScript number: a real number, an infinity, or \<^verbatim>\<open>NaN\<close> (which a
  missing array element turns into as well). The finite numbers of JavaScript are the
  binary64 numbers; the model lets any real number stand for one. Comparison,
  \<^verbatim>\<open>Math.min\<close>, \<^verbatim>\<open>Math.max\<close> and \<^verbatim>\<open>Math.round\<close> are exact on them. A product is
  rounded to a binary64 number: the rounding is the parameter \<open>rnd\<close> of the model, a
  function from the exact product to the number the machine returns.
\<close>

type_synonym byte = "8 word"

datatype range_error = ERR_OUT_OF_RANGE_value | ERR_OUT_OF_RANGE_offset

datatype jsnum = Num real | PosInf | NegInf | NaN

fun Math_min :: "jsnum \<Rightarrow> jsnum \<Rightarrow> jsnum" where
  "Math_min NaN y = NaN"
| "Math_min x NaN = NaN"
| "Math_min NegInf y = NegInf"
| "Math_min x NegInf = NegInf"
| "Math_min PosInf y = y"
| "Math_min x PosInf = x"
| "Math_min (Num a) (Num b) = Num (min a b)"

fun Math_max :: "jsnum \<Rightarrow> jsnum \<Rightarrow> jsnum" where
  "Math_max NaN y = NaN"
| "Math_max x NaN = NaN"
| "Math_max PosInf y = PosInf"
| "Math_max x PosInf = PosInf"
| "Math_max NegInf y = y"
| "Math_max x NegInf = x"
| "Math_max (Num a) (Num b) = Num (max a b)"

text \<open>\<^verbatim>\<open>x < y\<close>: false as soon as one side is \<^verbatim>\<open>NaN\<close>.\<close>

fun js_less :: "jsnum \<Rightarrow> jsnum \<Rightarrow> bool" where
  "js_less NaN y = False"
| "js_less x NaN = False"
| "js_less (Num a) (Num b) = (a < b)"
| "js_less NegInf NegInf = False"
| "js_less NegInf y = True"
| "js_less x NegInf = False"
| "js_less PosInf y = False"
| "js_less x PosInf = True"

fun js_sign :: "jsnum \<Rightarrow> real" where
  "js_sign (Num a) = sgn a"
| "js_sign PosInf = 1"
| "js_sign NegInf = - 1"
| "js_sign NaN = 0"

text \<open>The largest finite binary64 number, \<^verbatim>\<open>Number.MAX_VALUE\<close>.\<close>

definition MAX_VALUE :: real where
  "MAX_VALUE = 2 ^ 1024 - 2 ^ 971"

text \<open>
  \<^verbatim>\<open>x * y\<close>: the exact product of two finite numbers is rounded by \<open>rnd\<close>, and a
  rounded product beyond the largest finite number is an infinity.
\<close>

fun js_times :: "(real \<Rightarrow> real) \<Rightarrow> jsnum \<Rightarrow> jsnum \<Rightarrow> jsnum" where
  "js_times rnd NaN y = NaN"
| "js_times rnd x NaN = NaN"
| "js_times rnd (Num a) (Num b) =
    (if rnd (a * b) > MAX_VALUE then PosInf
     else if rnd (a * b) < - MAX_VALUE then NegInf else Num (rnd (a * b)))"
| "js_times rnd x y =
    (if js_sign x * js_sign y > 0 then PosInf
     else if js_sign x * js_sign y < 0 then NegInf else NaN)"

text \<open>\<^verbatim>\<open>Math.round\<close>: the nearest integer, a tie towards plus infinity.\<close>

fun Math_round :: "jsnum \<Rightarrow> jsnum" where
  "Math_round (Num a) = Num (of_int \<lfloor>a + 1 / 2\<rfloor>)"
| "Math_round x = x"

text \<open>
  Storing a number into a byte array truncates it towards zero and keeps the low bits;
  \<^verbatim>\<open>NaN\<close> stores 0.
\<close>

definition js_trunc :: "real \<Rightarrow> int" where
  "js_trunc r = (if r < 0 then \<lceil>r\<rceil> else \<lfloor>r\<rfloor>)"

fun le_bytes :: "nat \<Rightarrow> int \<Rightarrow> byte list" where
  "le_bytes 0 v = []"
| "le_bytes (Suc n) v = word_of_int v # le_bytes n (v div 256)"

fun store_bytes :: "byte list \<Rightarrow> nat \<Rightarrow> byte list \<Rightarrow> byte list" where
  "store_bytes [] off buf = buf"
| "store_bytes (b # bs) off buf = store_bytes bs (Suc off) (buf[off := b])"

definition Buffer_alloc :: "nat \<Rightarrow> byte list" where
  "Buffer_alloc n = replicate n 0"

text \<open>\<^verbatim>\<open>buf.write(string, offset)\<close> for an ASCII string: the bytes that fit are written.\<close>

definition buffer_write :: "string \<Rightarrow> nat \<Rightarrow> byte list \<Rightarrow> range_error + byte list" where
  "buffer_write s off buf =
    (if length buf < off then Inl ERR_OUT_OF_RANGE_offset
     else Inr (store_bytes (map (\<lambda>c. of_nat (of_char c)) s) off buf))"

text \<open>
  \<^verbatim>\<open>writeUInt32LE\<close>, \<^verbatim>\<open>writeUInt16LE\<close> and \<^verbatim>\<open>writeInt16LE\<close>: the value is checked
  against the range of the field first, then the offset against the buffer.
\<close>

definition writeUInt32LE :: "int \<Rightarrow> nat \<Rightarrow> byte list \<Rightarrow> range_error + byte list" where
  "writeUInt32LE v off buf =
    (if v > 4294967295 \<or> v < 0 then Inl ERR_OUT_OF_RANGE_value
     else if length buf < off + 4 then Inl ERR_OUT_OF_RANGE_offset
     else Inr (store_bytes (le_bytes 4 v) off buf))"

definition writeUInt16LE :: "int \<Rightarrow> nat \<Rightarrow> byte list \<Rightarrow> range_error + byte list" where
  "writeUInt16LE v off buf =
    (if v > 65535 \<or> v < 0 then Inl ERR_OUT_OF_RANGE_value
     else if length buf < off + 2 then Inl ERR_OUT_OF_RANGE_offset
     else Inr (store_bytes (le_bytes 2 v) off buf))"

text \<open>The integer \<^verbatim>\<open>writeInt16LE\<close> stores for a number that passes its check.\<close>

fun stored_int :: "jsnum \<Rightarrow> int" where
  "stored_int (Num r) = js_trunc r"
| "stored_int x = 0"

fun int16_in_range :: "jsnum \<Rightarrow> bool" where
  "int16_in_range (Num r) = (\<not> (r > 32767 \<or> r < - 32768))"
| "int16_in_range NaN = True"
| "int16_in_range x = False"

definition writeInt16LE :: "jsnum \<Rightarrow> nat \<Rightarrow> byte list \<Rightarrow> range_error + byte list" where
  "writeInt16LE v off buf =
    (if \<not> int16_in_range v then Inl ERR_OUT_OF_RANGE_value
     else if length buf < off + 2 then Inl ERR_OUT_OF_RANGE_offset
     else Inr (store_bytes (le_bytes 2 (stored_int v)) off buf))"

text \<open>
  \<^verbatim>\<open>readInt16LE\<close>: \<^verbatim>\<open>val = first + last * 2 ** 8; return val | (val & 2 ** 15) * 0x1fffe\<close>,
  the two's complement reading of the two bytes.
\<close>

definition readInt16LE :: "byte list \<Rightarrow> nat \<Rightarrow> range_error + int" where
  "readInt16LE buf off =
    (if length buf < off + 2 then Inl ERR_OUT_OF_RANGE_offset
     else (let val = uint (buf ! off) + uint (buf ! (off + 1)) * 256
           in Inr (if val \<ge> 32768 then val - 65536 else val)))"

definition readUInt32LE :: "byte list \<Rightarrow> nat \<Rightarrow> range_error + int" where
  "readUInt32LE buf off =
    (if length buf < off + 4 then Inl ERR_OUT_OF_RANGE_offset
     else Inr (uint (buf ! off) + uint (buf ! (off + 1)) * 256
               + uint (buf ! (off + 2)) * 65536 + uint (buf ! (off + 3)) * 16777216))"

text \<open>Sequencing of calls that may throw.\<close>

definition and_then :: "'e + 'a \<Rightarrow> ('a \<Rightarrow> 'e + 'b) \<Rightarrow> 'e + 'b" where
  "and_then r f = (case r of Inl e \<Rightarrow> Inl e | Inr x \<Rightarrow> f x)"

definition SAMPLE_RATE :: int where
  "SAMPLE_RATE = 44100"

definition BIT_DEPTH :: int where
  "BIT_DEPTH = 16"

text \<open>
  The value passed to \<^verbatim>\<open>writeInt16LE\<close> for one sample:
  \<^verbatim>\<open>const s = Math.max(-1, Math.min(1, samples[i]));
  const val = s < 0 ? s * 32768 : s * 32767; ... Math.round(val)\<close>
\<close>

definition sample_value :: "(real \<Rightarrow> real) \<Rightarrow> jsnum \<Rightarrow> jsnum" where
  "sample_value rnd x =
    (let s = Math_max (Num (- 1)) (Math_min (Num 1) x);
         val = (if js_less s (Num 0) then js_times rnd s (Num 32768)
                else js_times rnd s (Num 32767))
     in Math_round val)"

text \<open>The loop \<^verbatim>\<open>for (let i = 0; i < samples.length; i++)\<close>, from index \<open>i\<close> on.\<close>

fun write_samples ::
  "(real \<Rightarrow> real) \<Rightarrow> jsnum list \<Rightarrow> nat \<Rightarrow> byte list \<Rightarrow> range_error + byte list" where
  "write_samples rnd [] i buffer = Inr buffer"
| "write_samples rnd (x # xs) i buffer =
    and_then (writeInt16LE (sample_value rnd x) (44 + i * 2) buffer) (write_samples rnd xs (Suc i))"

definition encodeWav :: "(real \<Rightarrow> real) \<Rightarrow> jsnum list \<Rightarrow> int \<Rightarrow> range_error + byte list" where
  "encodeWav rnd samples sampleRate =
    (let numChannels = 1;
         bytesPerSample = BIT_DEPTH div 8;
         dataSize = int (length samples) * bytesPerSample;
         buffer = Buffer_alloc (nat (44 + dataSize))
     in and_then (buffer_write ''RIFF'' 0 buffer) (\<lambda>buffer.
        and_then (writeUInt32LE (36 + dataSize) 4 buffer) (\<lambda>buffer.
        and_then (buffer_write ''WAVE'' 8 buffer) (\<lambda>buffer.
        and_then (buffer_write ''fmt '' 12 buffer) (\<lambda>buffer.
        and_then (writeUInt32LE 16 16 buffer) (\<lambda>buffer.
        and_then (writeUInt16LE 1 20 buffer) (\<lambda>buffer.
        and_then (writeUInt16LE numChannels 22 buffer) (\<lambda>buffer.
        and_then (writeUInt32LE sampleRate 24 buffer) (\<lambda>buffer.
        and_then (writeUInt32LE (sampleRate * numChannels * bytesPerSample) 28 buffer) (\<lambda>buffer.
        and_then (writeUInt16LE (numChannels * bytesPerSample) 32 buffer) (\<lambda>buffer.
        and_then (writeUInt16LE BIT_DEPTH 34 buffer) (\<lambda>buffer.
        and_then (buffer_write ''data'' 36 buffer) (\<lambda>buffer.
        and_then (writeUInt32LE dataSize 40 buffer) (\<lambda>buffer.
        write_samples rnd samples 0 buffer))))))))))))))"

text \<open>
  What the properties below ask of the rounding: it is monotone and exact on 0, on 32767
  and on -32768. The binary64 rounding is monotone and exact on every binary64 number,
  in each rounding mode.
\<close>

definition sample_rounding :: "(real \<Rightarrow> real) \<Rightarrow> bool" where
  "sample_rounding rnd =
    (mono rnd \<and> rnd 0 = 0 \<and> rnd 32767 = 32767 \<and> rnd (- 32768) = - 32768)"

section \<open>The resolver and the volume composition, from the specification\<close>

text \<open>
  Modelled from the spec: the pack manifest of section 3 (\<^verbatim>\<open>SoundPack\<close>,
  \<^verbatim>\<open>CategoryName\<close>), whose implementation (the backend's \<^verbatim>\<open>sound_pack.rs\<close>) is not among
  the sources. Category overrides are kept in the manifest's declaration order.
\<close>

datatype pack_source = Bundled | User

datatype category_name = Cat_default | Cat_space | Cat_enter | Cat_modifier | Cat_backspace

record sound_defaults =
  default_asset :: string
  default_volume :: real

record key_override =
  key_asset :: "string option"
  key_volume :: "real option"

record category_override =
  cat_keys :: "string set"
  cat_asset :: string
  cat_volume :: "real option"

record sound_pack =
  sp_id :: string
  sp_name :: string
  sp_author :: string
  sp_version :: string
  sp_description :: string
  sp_source :: pack_source
  defaults :: sound_defaults
  keyOverrides :: "string \<rightharpoonup> key_override"
  categoryOverrides :: "(category_name \<times> category_override) list"
  originalNames :: "string \<rightharpoonup> string"

text \<open>
  Modelled from the spec: the first category override, in declaration order, whose key
  set contains the key (section 4.2, step 2 and the rule for a key in two categories).
\<close>

fun first_category :: "(category_name \<times> category_override) list \<Rightarrow> string \<Rightarrow> category_override option" where
  "first_category [] k = None"
| "first_category ((n, c) # rest) k = (if k \<in> cat_keys c then Some c else first_category rest k)"

text \<open>
  Modelled from the spec: steps 1 to 3 of \<^verbatim>\<open>resolve(pack, keyId)\<close> in section 4.2, the
  asset and the volume chosen by the three tiers, with the fallback to the defaults for
  each field an override leaves unset.
\<close>

definition resolve_tiers :: "sound_pack \<Rightarrow> string \<Rightarrow> string \<times> real" where
  "resolve_tiers pack keyId =
    (case keyOverrides pack keyId of
       Some ov \<Rightarrow>
         (case key_asset ov of Some a \<Rightarrow> a | None \<Rightarrow> default_asset (defaults pack),
          case key_volume ov of Some v \<Rightarrow> v | None \<Rightarrow> default_volume (defaults pack))
     | None \<Rightarrow>
         (case first_category (categoryOverrides pack) keyId of
            Some c \<Rightarrow>
              (cat_asset c,
               case cat_volume c of Some v \<Rightarrow> v | None \<Rightarrow> default_volume (defaults pack))
          | None \<Rightarrow> (default_asset (defaults pack), default_volume (defaults pack))))"

text \<open>
  Modelled from the spec: step 4 of \<^verbatim>\<open>resolve\<close>, with the set of assets that have a loaded
  buffer as a parameter: an asset without one resolves to Silent.
\<close>

datatype resolution = Silent | Play string real

definition resolve :: "(string \<Rightarrow> bool) \<Rightarrow> sound_pack \<Rightarrow> string \<Rightarrow> resolution" where
  "resolve loaded pack keyId =
    (case resolve_tiers pack keyId of (a, v) \<Rightarrow> if loaded a then Play a v else Silent)"

text \<open>
  Modelled from the spec: the slots of section 4.5, each one of the five category names
  or a per-key token that names a key of \<^verbatim>\<open>keyOverrides\<close>. The default slot is the slot
  of the category name \<^verbatim>\<open>default\<close>. The lifecycle manager is not among the sources.
\<close>

datatype slot_key = Category_slot category_name | Key_slot string

text \<open>
  Modelled from the spec: \<^verbatim>\<open>removeSlot(packId, slotKey)\<close> of section 4.4 on the manifest
  of the pack, with the asset reference of the generated silence placeholder as a
  parameter: for the default slot the asset is replaced by the placeholder; for a key or
  category slot the override is removed entirely.
\<close>

definition removeSlot :: "string \<Rightarrow> sound_pack \<Rightarrow> slot_key \<Rightarrow> sound_pack" where
  "removeSlot placeholder pack slotKey =
    (case slotKey of
       Category_slot c \<Rightarrow>
         if c = Cat_default
         then pack\<lparr>defaults := (defaults pack)\<lparr>default_asset := placeholder\<rparr>\<rparr>
         else pack\<lparr>categoryOverrides := filter (\<lambda>(n, ov). n \<noteq> c) (categoryOverrides pack)\<rparr>
     | Key_slot k \<Rightarrow> pack\<lparr>keyOverrides := (keyOverrides pack)(k := None)\<rparr>)"

text \<open>
  Modelled from the spec: the asset a slot holds, from the manifest sections of section 3;
  \<^term>\<open>None\<close> when no override is present for the slot. A key override without an asset
  of its own holds the default asset (section 4.2, step 1).
\<close>

definition slot_asset :: "sound_pack \<Rightarrow> slot_key \<Rightarrow> string option" where
  "slot_asset pack slotKey =
    (case slotKey of
       Category_slot c \<Rightarrow>
         if c = Cat_default then Some (default_asset (defaults pack))
         else map_option cat_asset (map_of (categoryOverrides pack) c)
     | Key_slot k \<Rightarrow>
         (case keyOverrides pack k of
            None \<Rightarrow> None
          | Some ov \<Rightarrow>
              Some (case key_asset ov of Some a \<Rightarrow> a | None \<Rightarrow> default_asset (defaults pack))))"

text \<open>
  Modelled from the spec: the volume composition of section 4.2,
  \<^verbatim>\<open>finalVolume = clamp(masterVolume * resolvedVolume, 0, 1)\<close>, over the real numbers; its
  implementation (the backend's \<^verbatim>\<open>sound_engine.rs\<close>) is not among the sources.
\<close>

definition clamp :: "real \<Rightarrow> real \<Rightarrow> real \<Rightarrow> real" where
  "clamp x lo hi = (if x < lo then lo else if hi < x then hi else x)"

definition finalVolume :: "real \<Rightarrow> real \<Rightarrow> real" where
  "finalVolume masterVolume resolvedVolume = clamp (masterVolume * resolvedVolume) 0 1"

text \<open>
  Modelled from the spec: the conversion of a volume to a playback gain,
  \<^verbatim>\<open>20 * log10(v)\<close> decibels, where the volume 0 has no logarithm and is played at the
  floor, that is, silent.
\<close>

datatype playback_gain = Silence | Decibels real

definition playback_gain_of :: "real \<Rightarrow> playback_gain" where
  "playback_gain_of v = (if v = 0 then Silence else Decibels (20 * log 10 v))"

text \<open>
  Modelled from the spec: the example of section 8, a key override for Space with asset
  A and a category \<^verbatim>\<open>space\<close> that covers Space with asset B.
\<close>

definition space_pack :: sound_pack where
  "space_pack =
    \<lparr>sp_id = ''example'', sp_name = ''Example'', sp_author = ''You'', sp_version = ''1.0.0'',
     sp_description = [], sp_source = User,
     defaults = \<lparr>default_asset = ''D'', default_volume = 4 / 5\<rparr>,
     keyOverrides = [''Space'' \<mapsto> \<lparr>key_asset = Some ''A'', key_volume = None\<rparr>],
     categoryOverrides =
       [(Cat_space, \<lparr>cat_keys = {''Space''}, cat_asset = ''B'', cat_volume = Some 1\<rparr>)],
     originalNames = Map.empty\<rparr>"

section \<open>Notions the claims are stated with\<close>

text \<open>A user pack is one whose source is \<^verbatim>\<open>"user"\<close>; every other pack is bundled.\<close>

definition is_user :: "pack_info \<Rightarrow> bool" where
  "is_user p = (source p = Some ''user'')"

text \<open>Alphabetical order of names: the lexicographic order of their character codes.\<close>

fun str_le :: "string \<Rightarrow> string \<Rightarrow> bool" where
  "str_le [] ys = True"
| "str_le (x # xs) [] = False"
| "str_le (x # xs) (y # ys) = ((of_char x :: nat) < of_char y \<or> (x = y \<and> str_le xs ys))"

definition alphabetical :: "pack_info list \<Rightarrow> bool" where
  "alphabetical ps = sorted_wrt (\<lambda>a b. str_le (pack_name a) (pack_name b)) ps"

text \<open>
  The order the specification gives for the pack list: the pack with id \<^verbatim>\<open>"default"\<close>
  first, then the user packs by name, then the bundled packs by name.
\<close>

definition registry_order :: "pack_info list \<Rightarrow> bool" where
  "registry_order ps =
    (case ps of
       [] \<Rightarrow> False
     | d # rest \<Rightarrow>
         pack_id d = ''default''
         \<and> list_all (\<lambda>p. \<not> is_user p) (dropWhile is_user rest)
         \<and> alphabetical (takeWhile is_user rest)
         \<and> alphabetical (dropWhile is_user rest))"

text \<open>The same grouping without the order inside the groups.\<close>

definition registry_grouped :: "pack_info list \<Rightarrow> bool" where
  "registry_grouped ps =
    (case ps of
       [] \<Rightarrow> False
     | d # rest \<Rightarrow>
         pack_id d = ''default'' \<and> list_all (\<lambda>p. \<not> is_user p) (dropWhile is_user rest))"

text \<open>The entry of a slot table for a slot key, as \<^verbatim>\<open>slots.find\<close> returns it.\<close>

definition slot_entry :: "string \<Rightarrow> slot_info list \<Rightarrow> slot_info option" where
  "slot_entry k slots = find (\<lambda>x. slot x = k) slots"

section \<open>Properties\<close>

subsection \<open>Facts about the helpers\<close>

lemma split_on_not_empty: "split_on d s \<noteq> []"
  by (induction s) (auto split: list.splits)

lemma map_slot_assign: "map slot (assign_file_name k v slots) = map slot slots"
  by (induction slots) auto

lemma slot_entry_assign_same:
  "slot_entry k (assign_file_name k v slots) =
     map_option (\<lambda>e. e\<lparr>file_name := v\<rparr>) (slot_entry k slots)"
  by (induction slots) (auto simp: slot_entry_def)

lemma slot_entry_assign_other:
  "k' \<noteq> k \<Longrightarrow> slot_entry k' (assign_file_name k v slots) = slot_entry k' slots"
  by (induction slots) (auto simp: slot_entry_def)

lemma length_splice_in: "length (splice_in k x xs) = Suc (length xs)"
  by (simp add: splice_in_def)

lemma set_splice_in: "set (splice_in k x xs) = insert x (set xs)"
proof -
  have "set (take k xs) \<union> set (drop k xs) = set xs"
    by (metis append_take_drop_id set_append)
  then show ?thesis by (auto simp: splice_in_def)
qed

lemma distinct_map_splice_in:
  "distinct (map f (splice_in k x xs)) = (f x \<notin> f ` set xs \<and> distinct (map f xs))"
proof -
  have s: "set (take k xs) \<union> set (drop k xs) = set xs"
    by (metis append_take_drop_id set_append)
  have d: "distinct (map f xs) = distinct (map f (take k xs) @ map f (drop k xs))"
    by (metis append_take_drop_id map_append)
  show ?thesis
    unfolding d splice_in_def using s by auto
qed

text \<open>
  Where \<^verbatim>\<open>findIndex\<close> stops in \<^verbatim>\<open>create_custom_pack\<close>: past index 0, at the first pack
  that is not a user pack.
\<close>

lemma findIndex_bundled:
  "0 < i \<Longrightarrow> findIndex (\<lambda>p j. j > 0 \<and> source p \<noteq> Some ''user'') xs i =
     (if dropWhile is_user xs = [] then None else Some (i + length (takeWhile is_user xs)))"
  by (induction xs arbitrary: i) (auto simp: is_user_def)

lemma create_packs_shape:
  assumes "packs st = d # rest"
  shows "packs (snd (create_custom_pack arg st)) =
           d # takeWhile is_user rest @ [fst (create_custom_pack arg st)] @ dropWhile is_user rest"
proof (cases "\<forall>x\<in>set rest. is_user x")
  case True
  then have "findIndex (\<lambda>p j. j > 0 \<and> source p \<noteq> Some ''user'') rest (Suc 0) = None"
    by (simp add: findIndex_bundled)
  then have "packs (snd (create_custom_pack arg st)) = d # rest @ [fst (create_custom_pack arg st)]"
    by (simp add: create_custom_pack_def Let_def assms)
  then show ?thesis
    using True
    by (simp add: takeWhile_eq_all_conv [THEN iffD2] dropWhile_eq_Nil_conv [THEN iffD2])
next
  case False
  then have "findIndex (\<lambda>p j. j > 0 \<and> source p \<noteq> Some ''user'') rest (Suc 0)
      = Some (Suc (length (takeWhile is_user rest)))"
    by (simp add: findIndex_bundled)
  then have "packs (snd (create_custom_pack arg st)) =
      d # take (length (takeWhile is_user rest)) rest @ [fst (create_custom_pack arg st)]
        @ drop (length (takeWhile is_user rest)) rest"
    by (simp add: create_custom_pack_def Let_def assms splice_in_def)
  then show ?thesis
    by (simp add: takeWhile_eq_take [symmetric] dropWhile_eq_drop [symmetric])
qed

lemma create_keeps_grouped:
  assumes "registry_grouped (packs st)"
  shows "registry_grouped (packs (snd (create_custom_pack arg st)))"
proof -
  from assms obtain d rest where ps: "packs st = d # rest"
    by (auto simp: registry_grouped_def split: list.splits)
  have u: "is_user (fst (create_custom_pack arg st))"
    by (simp add: create_custom_pack_def Let_def is_user_def)
  have "\<And>x. x \<in> set (takeWhile is_user rest) \<Longrightarrow> is_user x"
    by (auto dest: set_takeWhileD)
  then have "dropWhile is_user
      (takeWhile is_user rest @ [fst (create_custom_pack arg st)] @ dropWhile is_user rest)
      = dropWhile is_user rest"
    using u by (simp add: dropWhile_append dropWhile_dropWhile1)
  with assms ps show ?thesis
    by (simp add: create_packs_shape [OF ps] registry_grouped_def)
qed

lemma js_trim_blank: "list_all js_space s \<Longrightarrow> js_trim s = []"
  by (simp add: js_trim_def list_all_iff dropWhile_eq_Nil_conv [THEN iffD2])

lemma registry_order_default_packs: "registry_order DEFAULT_PACKS"
  by (simp add: registry_order_def DEFAULT_PACKS_def is_user_def alphabetical_def)

subsection \<open>Deleting the active pack\<close>

text \<open>
  \<^verbatim>\<open>delete_custom_pack\<close> removes the pack and its slot table and leaves the backend's
  active pack id as it was, also when it is the id of the deleted pack.
\<close>

lemma delete_custom_pack_effect:
  "activePackId (delete_custom_pack p st) = activePackId st
   \<and> p \<notin> pack_id ` set (packs (delete_custom_pack p st))
   \<and> (p \<noteq> ''__proto__'' \<longrightarrow> customSlots (delete_custom_pack p st) p = None)"
  by (auto simp: delete_custom_pack_def)

text \<open>
  The page's handler sets its own copy of the active id to \<^verbatim>\<open>"default"\<close>; the backend
  still reports the deleted pack.
\<close>

lemma handleDeletePack_active:
  assumes "page_activePackId ui = Some p" and "activePackId st = p"
  shows "page_activePackId (fst (handleDeletePack p (ui, st))) = Some ''default''
    \<and> get_active_pack_id (snd (handleDeletePack p (ui, st))) = p
    \<and> p \<notin> pack_id ` set (get_sound_packs (snd (handleDeletePack p (ui, st))))"
  using assms
  by (auto simp: handleDeletePack_def Let_def refreshPacks_def get_active_pack_id_def
      get_sound_packs_def delete_custom_pack_def)

text \<open>
  C3. After the active user pack is deleted, the pack is gone from the list and the active
  pack id is to be \<^verbatim>\<open>"default"\<close>. The mock backend removes the pack, but its
  \<^verbatim>\<open>get_active_pack_id\<close> still answers with the deleted pack's id: selecting
  \<^verbatim>\<open>"my-custom"\<close> in the default state and deleting it leaves \<^verbatim>\<open>"my-custom"\<close> active
  while the list holds \<^verbatim>\<open>"default"\<close> and \<^verbatim>\<open>"cherry-mx"\<close> only.
\<close>

theorem delete_active_pack_keeps_id:
  "fst (invoke Get_active_pack_id
      (snd (invoke (Delete_custom_pack ''my-custom'')
        (snd (invoke (Set_active_pack (Some ''my-custom'')) defaultState))))) = RStr ''my-custom''
   \<and> map pack_id (get_sound_packs
      (snd (invoke (Delete_custom_pack ''my-custom'')
        (snd (invoke (Set_active_pack (Some ''my-custom'')) defaultState))))) = [''default'', ''cherry-mx'']"
  by (simp add: get_active_pack_id_def get_sound_packs_def delete_custom_pack_def
      set_active_pack_def defaultState_def DEFAULT_PACKS_def)

subsection \<open>Removing a slot's sound\<close>

text \<open>
  The mock keeps the display name of a slot's file only: \<^verbatim>\<open>remove_sound_slot\<close> keeps
  every entry of the table and sets the file name of the named slot to \<^verbatim>\<open>null\<close>. It has
  no manifest and no assets, so what the default asset is after a removal is not a
  question the mock answers.
\<close>

lemma remove_sound_slot_clears_name:
  assumes "customSlots st packId = Some slots"
  shows "remove_sound_slot packId k st
      = Inr (st\<lparr>customSlots := (customSlots st)(packId \<mapsto> assign_file_name k None slots)\<rparr>)
    \<and> map slot (assign_file_name k None slots) = map slot slots
    \<and> slot_entry k (assign_file_name k None slots)
        = map_option (\<lambda>e. e\<lparr>file_name := None\<rparr>) (slot_entry k slots)"
  using assms
  by (simp add: remove_sound_slot_def lookup_slots_def map_slot_assign slot_entry_assign_same)

lemma map_of_filter_other:
  "map_of (filter (\<lambda>(n, ov). n \<noteq> c) xs) c = None"
  by (induction xs) auto

text \<open>
  C4. For every pack, \<^verbatim>\<open>removeSlot\<close> on the default slot leaves the default asset present:
  the slot then holds the silence placeholder, and a key that no override covers resolves
  to the placeholder at the default volume; the overrides are untouched. On a category
  slot other than the default, or on a key slot, the override is removed entirely: the
  slot then holds nothing, the default asset is untouched, and a removed key resolves
  through the categories and the defaults.
\<close>

theorem removeSlot_default_placeholder:
  "slot_asset (removeSlot placeholder pack (Category_slot Cat_default)) (Category_slot Cat_default)
      = Some placeholder
   \<and> keyOverrides (removeSlot placeholder pack (Category_slot Cat_default)) = keyOverrides pack
   \<and> categoryOverrides (removeSlot placeholder pack (Category_slot Cat_default))
      = categoryOverrides pack
   \<and> (keyOverrides pack keyId = None \<and> first_category (categoryOverrides pack) keyId = None \<longrightarrow>
        resolve_tiers (removeSlot placeholder pack (Category_slot Cat_default)) keyId
          = (placeholder, default_volume (defaults pack)))
   \<and> (c \<noteq> Cat_default \<longrightarrow>
        slot_asset (removeSlot placeholder pack (Category_slot c)) (Category_slot c) = None
        \<and> defaults (removeSlot placeholder pack (Category_slot c)) = defaults pack)
   \<and> slot_asset (removeSlot placeholder pack (Key_slot keyId)) (Key_slot keyId) = None
   \<and> defaults (removeSlot placeholder pack (Key_slot keyId)) = defaults pack
   \<and> resolve_tiers (removeSlot placeholder pack (Key_slot keyId)) keyId
      = (case first_category (categoryOverrides pack) keyId of
           Some ov \<Rightarrow>
             (cat_asset ov,
              case cat_volume ov of Some v \<Rightarrow> v | None \<Rightarrow> default_volume (defaults pack))
         | None \<Rightarrow> (default_asset (defaults pack), default_volume (defaults pack)))"
  by (auto simp: removeSlot_def slot_asset_def resolve_tiers_def map_of_filter_other
      split: option.splits)

theorem removeSlot_default_placeholder_witness:
  "keyOverrides space_pack ''KeyA'' = None
   \<and> first_category (categoryOverrides space_pack) ''KeyA'' = None
   \<and> resolve_tiers (removeSlot ''silence.wav'' space_pack (Category_slot Cat_default)) ''KeyA''
      = (''silence.wav'', 4 / 5)
   \<and> Cat_space \<noteq> Cat_default
   \<and> slot_asset space_pack (Category_slot Cat_space) = Some ''B''
   \<and> slot_asset (removeSlot ''silence.wav'' space_pack (Category_slot Cat_space))
        (Category_slot Cat_space) = None
   \<and> slot_asset (removeSlot ''silence.wav'' space_pack (Category_slot Cat_default))
        (Category_slot Cat_default) = Some ''silence.wav''"
proof -
  have k: "keyOverrides space_pack ''KeyA'' = None"
    by (simp add: space_pack_def)
  have c: "first_category (categoryOverrides space_pack) ''KeyA'' = None"
    by (simp add: space_pack_def)
  have d: "default_volume (defaults space_pack) = 4 / 5"
    by (simp add: space_pack_def)
  have b: "slot_asset space_pack (Category_slot Cat_space) = Some ''B''"
    by (simp add: space_pack_def slot_asset_def)
  note t = removeSlot_default_placeholder
    [of "''silence.wav''" space_pack "''KeyA''" Cat_space]
  from t k c d have r:
    "resolve_tiers (removeSlot ''silence.wav'' space_pack (Category_slot Cat_default)) ''KeyA''
      = (''silence.wav'', 4 / 5)"
    by simp
  from t have s:
    "slot_asset (removeSlot ''silence.wav'' space_pack (Category_slot Cat_space))
        (Category_slot Cat_space) = None"
    by simp
  from t have p:
    "slot_asset (removeSlot ''silence.wav'' space_pack (Category_slot Cat_default))
        (Category_slot Cat_default) = Some ''silence.wav''"
    by simp
  from k c r b s p show ?thesis by simp
qed

subsection \<open>Creating a pack\<close>

text \<open>
  C5 (as amended). \<^verbatim>\<open>create_custom_pack\<close> gives the new pack the id held in the state's
  \<^verbatim>\<open>nextCustomId\<close>, whatever the name and whether or not a pack has that id already:
  the name is not turned into a slug, no numeric suffix is added, and \<^verbatim>\<open>nextCustomId\<close>
  stays as it was. The pack has the given name (\<^verbatim>\<open>"Untitled"\<close> without one) and the
  source \<^verbatim>\<open>"user"\<close>; it is the one pack added to the list, and the id gets a table of
  five empty slots. When the ids of the list were unique and none was that id, the ids
  are unique afterwards.
\<close>

theorem create_custom_pack_id:
  "pack_id (fst (create_custom_pack arg st)) = nextCustomId st
   \<and> pack_name (fst (create_custom_pack arg st)) = (case arg of Some n \<Rightarrow> n | None \<Rightarrow> ''Untitled'')
   \<and> source (fst (create_custom_pack arg st)) = Some ''user''
   \<and> nextCustomId (snd (create_custom_pack arg st)) = nextCustomId st
   \<and> set (packs (snd (create_custom_pack arg st)))
       = insert (fst (create_custom_pack arg st)) (set (packs st))
   \<and> length (packs (snd (create_custom_pack arg st))) = Suc (length (packs st))
   \<and> lookup_slots (snd (create_custom_pack arg st)) (nextCustomId st) = Table new_pack_slots
   \<and> (distinct (map pack_id (packs st)) \<and> nextCustomId st \<notin> pack_id ` set (packs st)
        \<longrightarrow> distinct (map pack_id (packs (snd (create_custom_pack arg st)))))"
  by (auto simp: create_custom_pack_def Let_def set_splice_in distinct_map_splice_in
      length_splice_in lookup_slots_def split: option.splits)

theorem create_custom_pack_id_witness:
  "distinct (map pack_id (packs defaultState))
   \<and> nextCustomId defaultState \<notin> pack_id ` set (packs defaultState)
   \<and> pack_id (fst (create_custom_pack (Some ''Test'') defaultState)) = ''new-pack-1''
   \<and> pack_name (fst (create_custom_pack (Some ''Test'') defaultState)) = ''Test''
   \<and> distinct (map pack_id (packs (snd (create_custom_pack (Some ''Test'') defaultState))))"
proof -
  have h1: "distinct (map pack_id (packs defaultState))"
    by (simp add: defaultState_def DEFAULT_PACKS_def)
  have h2: "nextCustomId defaultState \<notin> pack_id ` set (packs defaultState)"
    by (simp add: defaultState_def DEFAULT_PACKS_def)
  have n: "nextCustomId defaultState = ''new-pack-1''"
    by (simp add: defaultState_def)
  note t = create_custom_pack_id [of "Some ''Test''" defaultState]
  from t n have i: "pack_id (fst (create_custom_pack (Some ''Test'') defaultState)) = ''new-pack-1''"
    by simp
  from t have m: "pack_name (fst (create_custom_pack (Some ''Test'') defaultState)) = ''Test''"
    by simp
  from t h1 h2 have d:
    "distinct (map pack_id (packs (snd (create_custom_pack (Some ''Test'') defaultState))))"
    by blast
  from h1 h2 i m d show ?thesis by blast
qed

text \<open>
  The claim as stated fails: two packs created under the name \<^verbatim>\<open>"Test"\<close> in the default
  state both get the id \<^verbatim>\<open>"new-pack-1"\<close>, neither \<^verbatim>\<open>"test"\<close> nor \<^verbatim>\<open>"test-2"\<close>, and the
  list then holds that id twice.
\<close>

theorem create_twice_counterexample:
  "pack_id (fst (create_custom_pack (Some ''Test'') defaultState)) = ''new-pack-1''
   \<and> pack_id (fst (create_custom_pack (Some ''Test'')
        (snd (create_custom_pack (Some ''Test'') defaultState)))) = ''new-pack-1''
   \<and> map pack_id (packs (snd (create_custom_pack (Some ''Test'')
        (snd (create_custom_pack (Some ''Test'') defaultState)))))
      = [''default'', ''my-custom'', ''new-pack-1'', ''new-pack-1'', ''cherry-mx'']"
  by (simp add: create_custom_pack_def defaultState_def DEFAULT_PACKS_def Let_def splice_in_def)

subsection \<open>The order of the pack list\<close>

text \<open>
  C6 (as amended). \<^verbatim>\<open>get_sound_packs\<close> returns the stored list in its stored order. When
  that list is grouped (the pack with id \<^verbatim>\<open>"default"\<close> first, then user packs, then
  bundled packs), it is still grouped after a create: the new pack stands after the user
  packs that followed the first pack and before the first bundled pack, whatever its
  name. Alphabetical order inside the groups is not established.
\<close>

theorem create_keeps_grouping:
  assumes "registry_grouped (packs st)"
  shows "registry_grouped (get_sound_packs (snd (create_custom_pack arg st)))
    \<and> get_sound_packs (snd (create_custom_pack arg st)) =
        hd (packs st) # takeWhile is_user (tl (packs st))
          @ [fst (create_custom_pack arg st)] @ dropWhile is_user (tl (packs st))"
proof -
  from assms obtain d rest where ps: "packs st = d # rest"
    by (auto simp: registry_grouped_def split: list.splits)
  show ?thesis
    using create_keeps_grouped [OF assms] create_packs_shape [OF ps] ps
    by (simp add: get_sound_packs_def)
qed

theorem create_keeps_grouping_witness:
  "registry_grouped (packs defaultState)
   \<and> registry_grouped (get_sound_packs (snd (create_custom_pack (Some ''Alpha'') defaultState)))
   \<and> map pack_name (get_sound_packs (snd (create_custom_pack (Some ''Alpha'') defaultState)))
      = [''HHKB'', ''My Custom'', ''Alpha'', ''Cherry MX Blue'']"
proof -
  have h: "registry_grouped (packs defaultState)"
    by (simp add: registry_grouped_def defaultState_def DEFAULT_PACKS_def is_user_def)
  have "map pack_name (get_sound_packs (snd (create_custom_pack (Some ''Alpha'') defaultState)))
      = [''HHKB'', ''My Custom'', ''Alpha'', ''Cherry MX Blue'']"
    by (simp add: get_sound_packs_def create_custom_pack_def defaultState_def DEFAULT_PACKS_def
        Let_def splice_in_def)
  then show ?thesis
    using h create_keeps_grouping [OF h, of "Some ''Alpha''", THEN conjunct1] by blast
qed

text \<open>
  The claim as stated fails: a pack named \<^verbatim>\<open>"Alpha"\<close> created in the default state is
  listed after \<^verbatim>\<open>"My Custom"\<close>, so the user packs are not in alphabetical order.
\<close>

theorem create_order_counterexample:
  "\<not> registry_order (get_sound_packs (snd (create_custom_pack (Some ''Alpha'') defaultState)))"
  by (simp add: registry_order_def get_sound_packs_def create_custom_pack_def Let_def
      splice_in_def defaultState_def DEFAULT_PACKS_def is_user_def alphabetical_def)

subsection \<open>Importing a sound file\<close>

text \<open>
  C7 (as amended). \<^verbatim>\<open>import_sound_file\<close> checks neither the extension nor the size of the
  file: its reply does not depend on the path. When the pack has a slot table it answers
  \<^verbatim>\<open>null\<close> and the first entry for the slot gets the last segment of the path as its
  file name; nothing else changes. When the pack id has no table and is the name of a
  member every object inherits, the call throws a \<^verbatim>\<open>TypeError\<close> and changes nothing.
  For any other pack id without a table, in a state where no array was installed under
  \<^verbatim>\<open>"__proto__"\<close>, it answers \<^verbatim>\<open>null\<close> and changes nothing.
\<close>

theorem import_sound_file_unchecked:
  "fst (invoke (Import_sound_file packId k path) st)
      = fst (invoke (Import_sound_file packId k path') st)
   \<and> (\<forall>slots. customSlots st packId = Some slots \<longrightarrow>
        invoke (Import_sound_file packId k path) st
          = (RNull, st\<lparr>customSlots := (customSlots st)
                (packId \<mapsto> assign_file_name k (Some (path_file_name path)) slots)\<rparr>)
        \<and> slot_entry k (assign_file_name k (Some (path_file_name path)) slots)
          = map_option (\<lambda>e. e\<lparr>file_name := Some (path_file_name path)\<rparr>) (slot_entry k slots))
   \<and> (customSlots st packId = None \<and> packId \<in> set Object_prototype_names \<longrightarrow>
        invoke (Import_sound_file packId k path) st = (Rejected TypeError, st))
   \<and> (customSlots st packId = None \<and> packId \<notin> set Object_prototype_names
        \<and> customSlots st ''__proto__'' = None \<longrightarrow>
        invoke (Import_sound_file packId k path) st = (RNull, st))"
  by (auto simp: import_sound_file_def Let_def lookup_slots_def slot_entry_assign_same
      split: option.splits)

theorem import_sound_file_unchecked_witness:
  "customSlots defaultState ''my-custom'' = Some
       [\<lparr>slot = ''default'', label = ''Default Key'', file_name = Some ''click.wav''\<rparr>,
        \<lparr>slot = ''space'', label = ''Space'', file_name = None\<rparr>,
        \<lparr>slot = ''enter'', label = ''Enter'', file_name = None\<rparr>,
        \<lparr>slot = ''modifier'', label = ''Modifiers'', file_name = None\<rparr>,
        \<lparr>slot = ''backspace'', label = ''Backspace / Delete'', file_name = None\<rparr>]
   \<and> fst (invoke (Import_sound_file ''my-custom'' ''space''
        (''C:'' @ CHR 0x5C # ''sounds'' @ CHR 0x5C # ''tap.ogg'')) defaultState) = RNull
   \<and> customSlots defaultState ''toString'' = None
   \<and> invoke (Import_sound_file ''toString'' ''space'' ''C:/tmp/tap.ogg'') defaultState
      = (Rejected TypeError, defaultState)
   \<and> customSlots defaultState ''no-such-pack'' = None
   \<and> customSlots defaultState ''__proto__'' = None
   \<and> invoke (Import_sound_file ''no-such-pack'' ''space'' ''C:/tmp/tap.ogg'') defaultState
      = (RNull, defaultState)"
proof -
  have g: "customSlots defaultState ''my-custom'' = Some
       [\<lparr>slot = ''default'', label = ''Default Key'', file_name = Some ''click.wav''\<rparr>,
        \<lparr>slot = ''space'', label = ''Space'', file_name = None\<rparr>,
        \<lparr>slot = ''enter'', label = ''Enter'', file_name = None\<rparr>,
        \<lparr>slot = ''modifier'', label = ''Modifiers'', file_name = None\<rparr>,
        \<lparr>slot = ''backspace'', label = ''Backspace / Delete'', file_name = None\<rparr>]"
    by (simp add: defaultState_def ALL_SLOTS_def)
  have h1: "customSlots defaultState ''toString'' = None"
    by (simp add: defaultState_def)
  have h2: "customSlots defaultState ''no-such-pack'' = None"
    by (simp add: defaultState_def)
  have h3: "customSlots defaultState ''__proto__'' = None"
    by (simp add: defaultState_def)
  have m1: "''toString'' \<in> set Object_prototype_names"
    by (simp add: Object_prototype_names_def)
  have m2: "''no-such-pack'' \<notin> set Object_prototype_names"
    by (simp add: Object_prototype_names_def)
  have a: "fst (invoke (Import_sound_file ''my-custom'' ''space''
        (''C:'' @ CHR 0x5C # ''sounds'' @ CHR 0x5C # ''tap.ogg'')) defaultState) = RNull"
    using g import_sound_file_unchecked
      [of "''my-custom''" "''space''" "''C:'' @ CHR 0x5C # ''sounds'' @ CHR 0x5C # ''tap.ogg''"
        defaultState, THEN conjunct2, THEN conjunct1]
    by simp
  have b: "invoke (Import_sound_file ''toString'' ''space'' ''C:/tmp/tap.ogg'') defaultState
      = (Rejected TypeError, defaultState)"
    using h1 m1 import_sound_file_unchecked
      [of "''toString''" "''space''" "''C:/tmp/tap.ogg''" defaultState,
        THEN conjunct2, THEN conjunct2, THEN conjunct1]
    by blast
  have c: "invoke (Import_sound_file ''no-such-pack'' ''space'' ''C:/tmp/tap.ogg'') defaultState
      = (RNull, defaultState)"
    using h2 h3 m2 import_sound_file_unchecked
      [of "''no-such-pack''" "''space''" "''C:/tmp/tap.ogg''" defaultState,
        THEN conjunct2, THEN conjunct2, THEN conjunct2]
    by blast
  from g a h1 b h2 h3 c show ?thesis by blast
qed

text \<open>
  The claim as stated fails: a text file is imported into the space slot of
  \<^verbatim>\<open>"my-custom"\<close> without an error, and the slot's file name changes.
\<close>

theorem import_text_file_counterexample:
  "invoke (Import_sound_file ''my-custom'' ''space'' ''C:/tmp/notes.txt'') defaultState
     = (RNull, defaultState\<lparr>customSlots := (customSlots defaultState)(''my-custom'' \<mapsto>
         [\<lparr>slot = ''default'', label = ''Default Key'', file_name = Some ''click.wav''\<rparr>,
          \<lparr>slot = ''space'', label = ''Space'', file_name = Some ''notes.txt''\<rparr>,
          \<lparr>slot = ''enter'', label = ''Enter'', file_name = None\<rparr>,
          \<lparr>slot = ''modifier'', label = ''Modifiers'', file_name = None\<rparr>,
          \<lparr>slot = ''backspace'', label = ''Backspace / Delete'', file_name = None\<rparr>])\<rparr>)
   \<and> get_custom_pack_slots ''my-custom'' defaultState = Inr
         [\<lparr>slot = ''default'', label = ''Default Key'', file_name = Some ''click.wav''\<rparr>,
          \<lparr>slot = ''space'', label = ''Space'', file_name = None\<rparr>,
          \<lparr>slot = ''enter'', label = ''Enter'', file_name = None\<rparr>,
          \<lparr>slot = ''modifier'', label = ''Modifiers'', file_name = None\<rparr>,
          \<lparr>slot = ''backspace'', label = ''Backspace / Delete'', file_name = None\<rparr>]"
  by (simp add: import_sound_file_def get_custom_pack_slots_def lookup_slots_def defaultState_def
      ALL_SLOTS_def path_file_name_def Let_def)

subsection \<open>Creating a pack with a blank name\<close>

text \<open>
  C8 (as amended). For a name of white space only, the empty name included, the page's
  \<^verbatim>\<open>handleCreatePack\<close> returns before it calls the backend: no pack is created and
  neither the page's state nor the backend's changes, and no error is raised or shown.
\<close>

theorem handleCreatePack_blank_name:
  assumes "list_all js_space (newPackName ui)"
  shows "handleCreatePack (ui, st) = (ui, st)"
  using js_trim_blank [OF assms] by (simp add: handleCreatePack_def)

theorem handleCreatePack_blank_name_witness:
  "list_all js_space (newPackName (initialPage\<lparr>newPackName := ''   ''\<rparr>))
   \<and> handleCreatePack (initialPage\<lparr>newPackName := ''   ''\<rparr>, defaultState)
      = (initialPage\<lparr>newPackName := ''   ''\<rparr>, defaultState)"
proof -
  have h: "list_all js_space (newPackName (initialPage\<lparr>newPackName := ''   ''\<rparr>))"
    by (simp add: js_space_def)
  show ?thesis
    using h handleCreatePack_blank_name [OF h, of defaultState] by simp
qed

text \<open>
  The claim as stated fails: the backend command creates a pack under a name of three
  spaces and answers with the pack, not with an error.
\<close>

theorem create_blank_name_counterexample:
  "invoke (Create_custom_pack (Some ''   '')) defaultState =
     (RPack \<lparr>pack_id = ''new-pack-1'', pack_name = ''   '', author = ''You'', description = [],
             source = Some ''user''\<rparr>,
      defaultState\<lparr>packs := [DEFAULT_PACKS ! 0, DEFAULT_PACKS ! 1,
          \<lparr>pack_id = ''new-pack-1'', pack_name = ''   '', author = ''You'', description = [],
             source = Some ''user''\<rparr>, DEFAULT_PACKS ! 2],
        customSlots := (customSlots defaultState)(''new-pack-1'' \<mapsto> new_pack_slots)\<rparr>)"
  by (simp add: create_custom_pack_def defaultState_def DEFAULT_PACKS_def Let_def splice_in_def)

subsection \<open>Toggling the sound\<close>

text \<open>
  C9. \<^verbatim>\<open>toggle_sound\<close> flips the enabled flag and returns the new value; invoked twice it
  restores the flag; each invocation leaves volume, activePackId, packs, customSlots and
  nextCustomId as they were.
\<close>

theorem toggle_sound_involution:
  "invoke Toggle_sound st = (RBool (\<not> enabled st), st\<lparr>enabled := \<not> enabled st\<rparr>)
   \<and> fst (toggle_sound st) = (\<not> enabled st)
   \<and> enabled (snd (toggle_sound st)) = (\<not> enabled st)
   \<and> snd (toggle_sound (snd (toggle_sound st))) = st
   \<and> volume (snd (toggle_sound st)) = volume st
   \<and> activePackId (snd (toggle_sound st)) = activePackId st
   \<and> packs (snd (toggle_sound st)) = packs st
   \<and> customSlots (snd (toggle_sound st)) = customSlots st
   \<and> nextCustomId (snd (toggle_sound st)) = nextCustomId st"
  by (simp add: toggle_sound_def Let_def)

subsection \<open>WAV encoding\<close>

text \<open>Bytes stored and read back.\<close>

lemma length_store_bytes [simp]: "length (store_bytes bs off buf) = length buf"
  by (induction bs arbitrary: off buf) auto

lemma nth_store_bytes:
  "i < length buf \<Longrightarrow>
     store_bytes bs off buf ! i = (if off \<le> i \<and> i < off + length bs then bs ! (i - off) else buf ! i)"
proof (induction bs arbitrary: off buf)
  case Nil
  then show ?case by auto
next
  case (Cons b bs)
  then show ?case
    by (auto simp: nth_list_update nth_Cons' Suc_diff_Suc)
qed

lemma length_le_bytes [simp]: "length (le_bytes n v) = n"
  by (induction n arbitrary: v) auto

lemma clamp_cases:
  "Math_max (Num (- 1)) (Math_min (Num 1) x) = NaN
   \<or> (\<exists>r. Math_max (Num (- 1)) (Math_min (Num 1) x) = Num r \<and> - 1 \<le> r \<and> r \<le> 1)"
  by (cases x) auto

lemma sample_value_cases:
  assumes "sample_rounding rnd"
  shows "sample_value rnd x = NaN
    \<or> (\<exists>v. sample_value rnd x = Num (of_int v) \<and> - 32768 \<le> v \<and> v \<le> 32767)"
proof -
  from assms have m: "mono rnd" and z: "rnd 0 = 0" and hi: "rnd 32767 = 32767"
    and lo: "rnd (- 32768) = - 32768"
    by (simp_all add: sample_rounding_def)
  have big: "(32768 :: real) \<le> MAX_VALUE"
    by (simp add: MAX_VALUE_def)
  from clamp_cases [of x] show ?thesis
  proof
    assume "Math_max (Num (- 1)) (Math_min (Num 1) x) = NaN"
    then show ?thesis by (simp add: sample_value_def)
  next
    assume "\<exists>r. Math_max (Num (- 1)) (Math_min (Num 1) x) = Num r \<and> - 1 \<le> r \<and> r \<le> 1"
    then obtain r where r: "Math_max (Num (- 1)) (Math_min (Num 1) x) = Num r" "- 1 \<le> r" "r \<le> 1"
      by blast
    show ?thesis
    proof (cases "r < 0")
      case True
      define p where "p = rnd (r * 32768)"
      have "rnd (- 32768) \<le> p"
        unfolding p_def using r by (intro monoD [OF m]) simp
      then have p1: "- 32768 \<le> p" by (simp add: lo)
      have "p \<le> rnd 0"
        unfolding p_def using True by (intro monoD [OF m]) simp
      then have p2: "p \<le> 0" by (simp add: z)
      have t: "js_times rnd (Num r) (Num 32768) = Num p"
        using p1 p2 big by (simp add: p_def)
      have "- 32768 \<le> \<lfloor>p + 1 / 2\<rfloor>" using p1 by (simp add: le_floor_iff)
      moreover have "\<lfloor>p + 1 / 2\<rfloor> \<le> 32767" using p2 by (simp add: floor_le_iff)
      ultimately show ?thesis using r True t by (simp add: sample_value_def)
    next
      case False
      define p where "p = rnd (r * 32767)"
      have "rnd 0 \<le> p"
        unfolding p_def using False by (intro monoD [OF m]) simp
      then have p1: "0 \<le> p" by (simp add: z)
      have "p \<le> rnd 32767"
        unfolding p_def using r by (intro monoD [OF m]) simp
      then have p2: "p \<le> 32767" by (simp add: hi)
      have t: "js_times rnd (Num r) (Num 32767) = Num p"
        using p1 p2 big by (simp add: p_def)
      have "- 32768 \<le> \<lfloor>p + 1 / 2\<rfloor>" using p1 by (simp add: le_floor_iff)
      moreover have "\<lfloor>p + 1 / 2\<rfloor> \<le> 32767" using p2 by (simp add: floor_le_iff)
      ultimately show ?thesis using r False t by (simp add: sample_value_def)
    qed
  qed
qed

lemma sample_value_in_range: "sample_rounding rnd \<Longrightarrow> int16_in_range (sample_value rnd x)"
  using sample_value_cases [of rnd x] by auto

lemma stored_int_range:
  "sample_rounding rnd \<Longrightarrow>
     - 32768 \<le> stored_int (sample_value rnd x) \<and> stored_int (sample_value rnd x) \<le> 32767"
  using sample_value_cases [of rnd x] by (auto simp: js_trunc_def)

lemma uint_byte_of_int: "uint (word_of_int v :: byte) = v mod 256"
  by (simp add: uint_word_of_int take_bit_eq_mod)

lemma two_bytes_mod: "v mod 256 + (v div 256) mod 256 * 256 = (v::int) mod 65536"
proof -
  have "v mod (256 * 256) = 256 * ((v div 256) mod 256) + v mod 256"
    by (rule zmod_zmult2_eq) simp
  then show ?thesis by simp
qed

lemma int16_bytes_value:
  assumes "- 32768 \<le> v" and "v \<le> 32767"
  shows "(let val = uint (word_of_int v :: byte) + uint (word_of_int (v div 256) :: byte) * 256
          in if val \<ge> 32768 then val - 65536 else val) = v"
proof (cases "0 \<le> v")
  case True
  then have "v mod 65536 = v" using assms by simp
  then show ?thesis using True assms by (simp add: uint_byte_of_int two_bytes_mod Let_def)
next
  case False
  have "(v + 65536) mod 65536 = v + 65536"
    using False assms by (intro mod_pos_pos_trivial) auto
  then have "v mod 65536 = v + 65536" by simp
  then show ?thesis using False assms by (simp add: uint_byte_of_int two_bytes_mod Let_def)
qed

lemma readInt16LE_store:
  assumes "off + 2 \<le> length buf" and "- 32768 \<le> v" and "v \<le> 32767"
  shows "readInt16LE (store_bytes (le_bytes 2 v) off buf) off = Inr v"
proof -
  have "store_bytes (le_bytes 2 v) off buf ! off = word_of_int v"
    using assms(1) by (simp add: nth_store_bytes numeral_2_eq_2)
  moreover have "store_bytes (le_bytes 2 v) off buf ! (off + 1) = word_of_int (v div 256)"
    using assms(1) by (simp add: nth_store_bytes numeral_2_eq_2)
  ultimately show ?thesis
    using assms int16_bytes_value [OF assms(2,3)] by (simp add: readInt16LE_def Let_def)
qed

lemma readInt16LE_cong:
  "length b = length buf \<Longrightarrow> b ! off = buf ! off \<Longrightarrow> b ! (off + 1) = buf ! (off + 1)
     \<Longrightarrow> readInt16LE b off = readInt16LE buf off"
  by (simp add: readInt16LE_def)

text \<open>
  The sample loop never throws when the buffer has room for the samples; it leaves the
  bytes before its first offset alone, and each sample reads back as the integer stored
  for it.
\<close>

lemma write_samples_ok:
  assumes "44 + 2 * (k + length xs) \<le> length buf" and rnd: "sample_rounding rnd"
  shows "\<exists>b. write_samples rnd xs k buf = Inr b \<and> length b = length buf
      \<and> (\<forall>i < 44 + 2 * k. b ! i = buf ! i)
      \<and> (\<forall>j < length xs. readInt16LE b (44 + 2 * (k + j)) = Inr (stored_int (sample_value rnd (xs ! j))))"
  using assms(1)
proof (induction xs arbitrary: k buf)
  case Nil
  then show ?case by simp
next
  case (Cons x xs)
  define off where "off = 44 + 2 * k"
  define buf' where "buf' = store_bytes (le_bytes 2 (stored_int (sample_value rnd x))) off buf"
  have off2: "off + 2 \<le> length buf" using Cons.prems by (simp add: off_def)
  have len: "length buf' = length buf" by (simp add: buf'_def)
  have offk: "44 + k * 2 = off" by (simp add: off_def)
  have step: "writeInt16LE (sample_value rnd x) (44 + k * 2) buf = Inr buf'"
    unfolding offk using off2 by (simp add: writeInt16LE_def sample_value_in_range [OF rnd] buf'_def)
  have "44 + 2 * (Suc k + length xs) \<le> length buf'"
    using Cons.prems len by simp
  from Cons.IH [OF this] obtain b where b1: "write_samples rnd xs (Suc k) buf' = Inr b"
    and b2: "length b = length buf'"
    and b3: "\<forall>i < 44 + 2 * Suc k. b ! i = buf' ! i"
    and b4: "\<forall>j < length xs. readInt16LE b (44 + 2 * (Suc k + j)) = Inr (stored_int (sample_value rnd (xs ! j)))"
    by blast
  have r: "write_samples rnd (x # xs) k buf = Inr b"
    using step b1 by (simp add: and_then_def)
  have low: "\<forall>i < 44 + 2 * k. b ! i = buf ! i"
  proof (intro allI impI)
    fix i assume i: "i < 44 + 2 * k"
    then have "b ! i = buf' ! i" using b3 by simp
    also have "\<dots> = buf ! i" using i off2 by (simp add: buf'_def nth_store_bytes off_def)
    finally show "b ! i = buf ! i" .
  qed
  have first: "readInt16LE b off = Inr (stored_int (sample_value rnd x))"
  proof -
    have "b ! off = buf' ! off" using b3 by (simp add: off_def)
    moreover have "b ! (off + 1) = buf' ! (off + 1)" using b3 by (simp add: off_def)
    ultimately have "readInt16LE b off = readInt16LE buf' off"
      using b2 by (rule_tac readInt16LE_cong)
    also have "\<dots> = Inr (stored_int (sample_value rnd x))"
      unfolding buf'_def using off2 stored_int_range [OF rnd, of x]
      by (intro readInt16LE_store) auto
    finally show ?thesis .
  qed
  have data: "\<forall>j < length (x # xs).
      readInt16LE b (44 + 2 * (k + j)) = Inr (stored_int (sample_value rnd ((x # xs) ! j)))"
  proof (intro allI impI)
    fix j assume j: "j < length (x # xs)"
    show "readInt16LE b (44 + 2 * (k + j)) = Inr (stored_int (sample_value rnd ((x # xs) ! j)))"
    proof (cases j)
      case 0
      then show ?thesis using first by (simp add: off_def)
    next
      case (Suc j')
      then have "j' < length xs" using j by simp
      with b4 have "readInt16LE b (44 + 2 * (Suc k + j')) = Inr (stored_int (sample_value rnd (xs ! j')))"
        by blast
      then show ?thesis using Suc by simp
    qed
  qed
  from r b2 len low data show ?case by simp
qed

lemma four_bytes_value:
  assumes "0 \<le> v" and "v \<le> 4294967295"
  shows "uint (word_of_int v :: byte) + uint (word_of_int (v div 256) :: byte) * 256
       + uint (word_of_int (v div 256 div 256) :: byte) * 65536
       + uint (word_of_int (v div 256 div 256 div 256) :: byte) * 16777216 = v"
proof -
  define a where "a = v div 256"
  define b where "b = a div 256"
  define c where "c = b div 256"
  have v: "v = a * 256 + v mod 256" by (simp add: a_def)
  have a: "a = b * 256 + a mod 256" by (simp add: b_def)
  have b: "b = c * 256 + b mod 256" by (simp add: c_def)
  have "0 \<le> c" and "c < 256"
    using assms by (simp_all add: a_def b_def c_def zdiv_zmult2_eq [symmetric])
  then have c: "c mod 256 = c" by simp
  have "v mod 256 + (a mod 256) * 256 + (b mod 256) * 65536 + (c mod 256) * 16777216 = v"
    using v a b c by linarith
  then show ?thesis by (simp add: uint_byte_of_int a_def b_def c_def)
qed

lemma readUInt32LE_store:
  assumes "off + 4 \<le> length buf" and "0 \<le> v" and "v \<le> 4294967295"
  shows "readUInt32LE (store_bytes (le_bytes 4 v) off buf) off = Inr v"
proof -
  have n: "store_bytes (le_bytes 4 v) off buf ! off = word_of_int v"
    "store_bytes (le_bytes 4 v) off buf ! (off + 1) = word_of_int (v div 256)"
    "store_bytes (le_bytes 4 v) off buf ! (off + 2) = word_of_int (v div 256 div 256)"
    "store_bytes (le_bytes 4 v) off buf ! (off + 3) = word_of_int (v div 256 div 256 div 256)"
    using assms(1) by (simp_all add: nth_store_bytes eval_nat_numeral)
  show ?thesis
    unfolding readUInt32LE_def n
    using assms(1) four_bytes_value [OF assms(2,3)] by simp
qed

lemma readUInt32LE_frame:
  assumes "off' + length bs \<le> off \<or> off + 4 \<le> off'"
  shows "readUInt32LE (store_bytes bs off' buf) off = readUInt32LE buf off"
proof (cases "length buf < off + 4")
  case True
  then show ?thesis by (simp add: readUInt32LE_def)
next
  case False
  then show ?thesis using assms by (auto simp: readUInt32LE_def nth_store_bytes)
qed



lemma header_ok:
  assumes "36 + 2 * int (length samples) \<le> 4294967295"
    and "0 \<le> sampleRate" and "sampleRate * 2 \<le> 4294967295"
  shows "\<exists>hb. encodeWav rnd samples sampleRate = write_samples rnd samples 0 hb
      \<and> length hb = 44 + 2 * length samples
      \<and> readUInt32LE hb 4 = Inr (36 + 2 * int (length samples))
      \<and> readUInt32LE hb 40 = Inr (2 * int (length samples))"
  using assms
  apply (simp add: encodeWav_def Let_def BIT_DEPTH_def Buffer_alloc_def and_then_def
      buffer_write_def writeUInt32LE_def writeUInt16LE_def nat_add_distrib nat_mult_distrib
      del: store_bytes.simps)
  apply (rule exI, intro conjI, rule refl)
    apply (simp_all add: readUInt32LE_frame readUInt32LE_store del: store_bytes.simps)
  done


text \<open>
  The largest finite double, written out, so that the encoder can be evaluated on
  concrete samples.
\<close>

lemma MAX_VALUE_numeral [code]:
  "MAX_VALUE =
     179769313486231570814527423731704356798070567525844996598917476803157260780028538760589558632766878171540458953514382464234321326889464182768467546703537516986049910576551282076245490090389328944075868508455133942304583236903222948165808559332123348274797826204144723168738177180919299881250404026184124858368"
  by (simp add: MAX_VALUE_def)

text \<open>
  A three-sample array, encoded byte for byte. The products \<open>1 * 32767\<close> and
  \<open>-1 * 32768\<close> are integers below \<open>2 ^ 53\<close>, so the double product is the real one
  and the rounding is the identity here.
\<close>

lemma encodeWav_example: "encodeWav id [Num 1, Num (- 1), NaN] SAMPLE_RATE = Inr
    [82, 73, 70, 70, 42, 0, 0, 0, 87, 65, 86, 69, 102, 109, 116, 32, 16, 0,
      0, 0, 1, 0, 1, 0, 68, 172, 0, 0, 136, 88, 1, 0, 2, 0, 16, 0, 100, 97,
      116, 97, 6, 0, 0, 0, 255, 127, 0, 128, 0, 0]"
  by code_simp


text \<open>Each sample reads back from the encoded buffer as the integer stored for it.\<close>

lemma encodeWav_samples_read_back:
  assumes "length samples \<le> 2147483629" and "sample_rounding rnd"
    and "encodeWav rnd samples SAMPLE_RATE = Inr buf" and "i < length samples"
  shows "readInt16LE buf (44 + 2 * i) = Inr (stored_int (sample_value rnd (samples ! i)))"
proof -
  have "36 + 2 * int (length samples) \<le> 4294967295"
    using assms(1) by simp
  from header_ok [OF this, of SAMPLE_RATE rnd]
  obtain hb where hb: "encodeWav rnd samples SAMPLE_RATE = write_samples rnd samples 0 hb"
    and len: "length hb = 44 + 2 * length samples"
    by (auto simp: SAMPLE_RATE_def)
  have "44 + 2 * (0 + length samples) \<le> length hb"
    using len by simp
  from write_samples_ok [OF this assms(2)] assms(3,4) hb show ?thesis
    by auto
qed





subsection \<open>Resolution and volume\<close>

text \<open>
  C1. When the pack has a key override for the key, \<^verbatim>\<open>resolve\<close> uses the override's asset
  and volume, each falling back to the pack's default when the override leaves it unset,
  whatever the category overrides are: replacing them by any others does not change the
  result.
\<close>

theorem key_override_wins:
  assumes "keyOverrides pack keyId = Some ov"
  shows "resolve_tiers pack keyId =
      (case key_asset ov of Some a \<Rightarrow> a | None \<Rightarrow> default_asset (defaults pack),
       case key_volume ov of Some v \<Rightarrow> v | None \<Rightarrow> default_volume (defaults pack))
    \<and> resolve_tiers (pack\<lparr>categoryOverrides := cs\<rparr>) keyId = resolve_tiers pack keyId
    \<and> resolve loaded (pack\<lparr>categoryOverrides := cs\<rparr>) keyId = resolve loaded pack keyId"
  using assms by (auto simp: resolve_tiers_def resolve_def split: option.splits)

theorem key_override_wins_witness:
  "keyOverrides space_pack ''Space'' = Some \<lparr>key_asset = Some ''A'', key_volume = None\<rparr>
   \<and> first_category (categoryOverrides space_pack) ''Space''
      = Some \<lparr>cat_keys = {''Space''}, cat_asset = ''B'', cat_volume = Some 1\<rparr>
   \<and> resolve_tiers space_pack ''Space'' = (''A'', 4 / 5)"
proof -
  have h: "keyOverrides space_pack ''Space'' = Some \<lparr>key_asset = Some ''A'', key_volume = None\<rparr>"
    by (simp add: space_pack_def)
  have c: "first_category (categoryOverrides space_pack) ''Space''
      = Some \<lparr>cat_keys = {''Space''}, cat_asset = ''B'', cat_volume = Some 1\<rparr>"
    by (simp add: space_pack_def)
  have d: "defaults space_pack = \<lparr>default_asset = ''D'', default_volume = 4 / 5\<rparr>"
    by (simp add: space_pack_def)
  show ?thesis
    using h c d key_override_wins [OF h, THEN conjunct1] by simp
qed

text \<open>
  C2. The composed volume is the product of the master volume and the resolved volume,
  clamped to the interval from 0 to 1; a master volume of 0.5 and a resolved volume of
  0.8 give 0.4; a master volume of 0 gives the volume 0, which is played as silence,
  whatever the resolved volume.
\<close>

theorem finalVolume_clamped:
  "finalVolume m r = max 0 (min 1 (m * r))
   \<and> 0 \<le> finalVolume m r \<and> finalVolume m r \<le> 1
   \<and> finalVolume (1 / 2) (4 / 5) = 2 / 5
   \<and> finalVolume 0 r = 0
   \<and> playback_gain_of (finalVolume 0 r) = Silence"
  by (simp add: finalVolume_def clamp_def playback_gain_of_def)

end
